theory Spec2Isabelle
  imports Complex_Main
begin

section \<open>Intake control for a PROS robot: stall monitor, operator control, colour sorting\<close>

text \<open>
  The sample programs drive one intake motor from several tasks. Every task is a
  \<^verbatim>\<open>while (true)\<close> loop that reads sensors, commands the motor and sleeps. The loops are
  embedded as step functions: the sensor readings are arguments, the motor and the
  task's variables are state, and everything a step does to the outside world (motor
  commands, sleeps, diagnostic text) is returned as a list of events in program order.
\<close>

subsection \<open>The motor and the events of a task\<close>

datatype event =
    Move_velocity int
  | Move_relative int int
  | Delay nat
  | Lcd_print nat string "real list"
  | Set_text nat nat string

text \<open>
  \<^verbatim>\<open>pros::Motor\<close> belongs to the PROS library. The programs read two things from it,
  the actual velocity (a sensor reading, an argument of the steps below) and the target
  velocity, which is the velocity given with the last movement command, by
  \<^verbatim>\<open>move_velocity\<close> or by \<^verbatim>\<open>move_relative\<close>. Velocities that are \<^verbatim>\<open>double\<close> in the source are
  real numbers here, the \<^verbatim>\<open>int\<close> ones are integers; all constants are far from any
  overflow.
\<close>

record motor =
  target_velocity :: int

definition move_velocity :: "int \<Rightarrow> motor \<Rightarrow> motor" where
  "move_velocity v m = m\<lparr>target_velocity := v\<rparr>"

definition move_relative :: "int \<Rightarrow> int \<Rightarrow> motor \<Rightarrow> motor" where
  "move_relative position v m = m\<lparr>target_velocity := v\<rparr>"

text \<open>What one pass over the sensors gives: \<^verbatim>\<open>get_actual_velocity()\<close> and \<^verbatim>\<open>is_stopped()\<close>.\<close>

record sensors =
  actual_velocity :: real
  is_stopped :: bool

text \<open>
  The monitors call \<^verbatim>\<open>abs\<close> on the \<^verbatim>\<open>double\<close> that \<^verbatim>\<open>get_actual_velocity()\<close> returns. With the
  headers the files include this is \<^verbatim>\<open>int abs(int)\<close>: the reading is converted to
  \<^verbatim>\<open>int\<close> first, which drops its fraction, and the result is an \<^verbatim>\<open>int\<close>. (The readings
  of a motor are far inside the range of \<^verbatim>\<open>int\<close>.)
\<close>

definition to_int :: "real \<Rightarrow> int" where
  "to_int r = (if r < 0 then \<lceil>r\<rceil> else \<lfloor>r\<rfloor>)"

definition abs_int :: "real \<Rightarrow> int" where
  "abs_int r = \<bar>to_int r\<bar>"

subsection \<open>Colour sorting\<close>

datatype AllianceColor = RED | BLUE | UNKNOWN

text \<open>
  \<^verbatim>\<open>detectColor\<close>, as a function of the hue: the function stores the sensor's reading in
  an \<^verbatim>\<open>int\<close> and compares that.
\<close>

definition detectColor :: "int \<Rightarrow> AllianceColor" where
  "detectColor hue =
     (if hue \<ge> 330 \<or> hue \<le> 30 then RED
      else if hue \<ge> 210 \<and> hue \<le> 270 then BLUE
      else UNKNOWN)"

definition TRAVEL_DELAY :: nat where "TRAVEL_DELAY = 100"
definition STOP_DELAY :: nat where "STOP_DELAY = 200"
definition INTAKE_SPEED :: int where "INTAKE_SPEED = 100"

text \<open>
  One iteration of the loop of \<^verbatim>\<open>colorSortTask\<close>: the hue read by \<^verbatim>\<open>detectColor\<close>, the
  global \<^verbatim>\<open>ALLIANCE_COLOR\<close> and the intake motor go in, the motor and the events come out.
\<close>

definition colorSortTask :: "AllianceColor \<Rightarrow> int \<Rightarrow> motor \<Rightarrow> motor \<times> event list" where
  "colorSortTask ALLIANCE_COLOR hue intake =
     (let detectedColor = detectColor hue in
      if detectedColor = ALLIANCE_COLOR then
        (intake, [Set_text 2 0 ''Color Match!'', Delay 50])
      else if detectedColor \<noteq> UNKNOWN then
        (move_velocity INTAKE_SPEED (move_velocity 0 intake),
         [Delay TRAVEL_DELAY, Move_velocity 0, Set_text 2 0 ''Color Mismatch!'',
          Delay STOP_DELAY, Move_velocity INTAKE_SPEED, Delay 50])
      else
        (intake, [Set_text 2 0 ''No Ring!'', Delay 50]))"

text \<open>
  The target velocity an observer sees \<open>t\<close> milliseconds into a list of events, when it
  was \<open>v\<close> at the start: commands take no time, a sleep of \<open>d\<close> milliseconds takes \<open>d\<close>.
\<close>

fun velocity_at :: "int \<Rightarrow> event list \<Rightarrow> nat \<Rightarrow> int" where
  "velocity_at v [] t = v"
| "velocity_at v (Move_velocity w # es) t = velocity_at w es t"
| "velocity_at v (Move_relative p w # es) t = velocity_at w es t"
| "velocity_at v (Delay d # es) t = (if t < d then v else velocity_at v es (t - d))"
| "velocity_at v (Lcd_print l f xs # es) t = velocity_at v es t"
| "velocity_at v (Set_text l c s # es) t = velocity_at v es t"

definition commands :: "event list \<Rightarrow> event list" where
  "commands es = filter (\<lambda>e. case e of Move_velocity v \<Rightarrow> True | Move_relative p v \<Rightarrow> True | _ \<Rightarrow> False) es"

subsection \<open>The stall monitor of HighStakes-MonitorIntake-Pros.cpp\<close>

definition DESIRED_VELOCITY :: int where "DESIRED_VELOCITY = 600"
definition VELOCITY_THRESHOLD :: int where "VELOCITY_THRESHOLD = 50"
definition REVERSE_DEGREES :: int where "REVERSE_DEGREES = 90"
definition REVERSE_SPEED :: int where "REVERSE_SPEED = - 100"

text \<open>
  \<^verbatim>\<open>intake_monitor_task_function\<close> reads the actual velocity in two places: at the head of
  the outer loop, and in the condition of the inner loop that waits for the reversal to
  end. A step is the code from one of these reads to the next, so a task is in one of
  two places between steps.
\<close>

datatype location = LoopHead | ReverseWait

record monitor =
  reversing :: bool
  spin_up_grace :: bool
  place :: location

definition monitor_start :: monitor where
  "monitor_start = \<lparr>reversing = False, spin_up_grace = True, place = LoopHead\<rparr>"

text \<open>
  The step. \<open>SPIN_UP_GRACE\<close>, the length of the first sleep, is used by the function but
  declared nowhere in the file (the constant next to it is \<^verbatim>\<open>SPIN_UP_GRACE_MS_MS = 1000\<close>),
  so it is a parameter.
  The file holds a second, older copy of the function, which differs in two constants
  only: it sleeps 200 ms and resumes at 200 rpm.
\<close>

definition intake_monitor_task_function ::
  "nat \<Rightarrow> sensors \<Rightarrow> monitor \<times> motor \<Rightarrow> (monitor \<times> motor) \<times> event list" where
  "intake_monitor_task_function SPIN_UP_GRACE x tm =
     (let t = fst tm; intake_motor = snd tm; current_velocity = actual_velocity x in
      case place t of
        LoopHead \<Rightarrow>
          if spin_up_grace t then
            ((t\<lparr>spin_up_grace := False\<rparr>, intake_motor), [Delay SPIN_UP_GRACE])
          else if \<not> reversing t \<and> abs_int current_velocity < VELOCITY_THRESHOLD
                  \<and> target_velocity intake_motor \<noteq> 0 then
            ((t\<lparr>reversing := True, place := ReverseWait\<rparr>,
              move_relative (- REVERSE_DEGREES) REVERSE_SPEED intake_motor),
             [Lcd_print 0 ''Intake stuck! Reversing...'' [],
              Lcd_print 2 ''Current velocity: %.2f'' [current_velocity],
              Move_relative (- REVERSE_DEGREES) REVERSE_SPEED])
          else
            ((t, intake_motor), [Delay 20])
      | ReverseWait \<Rightarrow>
          if abs_int current_velocity > 1 then
            ((t, intake_motor), [Delay 10])
          else
            ((t\<lparr>reversing := False, place := LoopHead\<rparr>, move_velocity DESIRED_VELOCITY intake_motor),
             [Move_velocity DESIRED_VELOCITY, Delay 20]))"

text \<open>A task that is given one reading after the other.\<close>

fun monitor_run ::
  "nat \<Rightarrow> sensors list \<Rightarrow> monitor \<times> motor \<Rightarrow> (monitor \<times> motor) \<times> event list" where
  "monitor_run g [] tm = (tm, [])"
| "monitor_run g (x # xs) tm =
     (let (tm1, es1) = intake_monitor_task_function g x tm;
          (tm2, es2) = monitor_run g xs tm1
      in (tm2, es1 @ es2))"

subsection \<open>The older stall monitor (the unnamed source file)\<close>

definition desired_velocity :: int where "desired_velocity = 200"
definition velocity_threshold :: int where "velocity_threshold = 50"
definition reverse_degrees :: int where "reverse_degrees = 90"
definition reverse_speed :: int where "reverse_speed = - 100"

text \<open>
  \<^verbatim>\<open>intake_monitor_task\<close> of the unnamed file has no variables of its own, only the place
  it is at. Its inner loop asks \<^verbatim>\<open>is_stopped()\<close> instead of the velocity. (The name
  \<open>intake_monitor_task\<close> itself is the task pointer of the other file, below.)
\<close>

definition intake_monitor_task_loop ::
  "sensors \<Rightarrow> location \<times> motor \<Rightarrow> (location \<times> motor) \<times> event list" where
  "intake_monitor_task_loop x lm =
     (let intake_motor = snd lm; current_velocity = actual_velocity x in
      case fst lm of
        LoopHead \<Rightarrow>
          if abs_int current_velocity < velocity_threshold
             \<and> target_velocity intake_motor \<noteq> 0 then
            ((ReverseWait, move_relative (- reverse_degrees) reverse_speed intake_motor),
             [Lcd_print 0 ''Intake stuck! Reversing...'' [],
              Move_relative (- reverse_degrees) reverse_speed])
          else
            ((LoopHead, intake_motor), [Delay 20])
      | ReverseWait \<Rightarrow>
          if \<not> is_stopped x then
            ((ReverseWait, intake_motor), [Delay 10])
          else
            ((LoopHead, move_velocity desired_velocity intake_motor),
             [Move_velocity desired_velocity, Delay 20]))"

fun monitor_loop_run ::
  "sensors list \<Rightarrow> location \<times> motor \<Rightarrow> (location \<times> motor) \<times> event list" where
  "monitor_loop_run [] lm = (lm, [])"
| "monitor_loop_run (x # xs) lm =
     (let (lm1, es1) = intake_monitor_task_loop x lm;
          (lm2, es2) = monitor_loop_run xs lm1
      in (lm2, es1 @ es2))"

text \<open>What a list of events says about stalls: the report on the LCD and the reversal.\<close>

definition stall_reports :: "event list \<Rightarrow> nat" where
  "stall_reports es = length (filter (\<lambda>e. e = Lcd_print 0 ''Intake stuck! Reversing...'' []) es)"

definition reversals :: "event list \<Rightarrow> nat" where
  "reversals es = length (filter (\<lambda>e. case e of Move_relative p v \<Rightarrow> True | _ \<Rightarrow> False) es)"

subsection \<open>Operator control and the task pointer (HighStakes-MonitorIntake-Pros.cpp)\<close>

datatype IntakeDirection = FORWARD | BACKWARD | STOPPED

text \<open>
  The globals of the program, and the tasks the scheduler holds: \<^verbatim>\<open>new pros::Task\<close> adds a
  task with a fresh number and fresh local variables, \<^verbatim>\<open>remove()\<close> takes it out of the
  scheduler, after which it never runs again. The pointer \<^verbatim>\<open>intake_monitor_task\<close> is
  \<open>None\<close> for \<^verbatim>\<open>nullptr\<close>.
\<close>

record robot =
  intake_monitor_task :: "nat option"
  intake_motor :: motor
  intake_direction :: IntakeDirection
  tasks :: "(nat \<times> monitor) list"
  created :: nat

definition robot_start :: robot where
  "robot_start = \<lparr>intake_monitor_task = None, intake_motor = \<lparr>target_velocity = 0\<rparr>,
                  intake_direction = STOPPED, tasks = [], created = 0\<rparr>"

definition startMonitoringTask :: "robot \<Rightarrow> robot" where
  "startMonitoringTask s =
     (if intake_monitor_task s = None then
        s\<lparr>intake_monitor_task := Some (created s),
          tasks := tasks s @ [(created s, monitor_start)],
          created := Suc (created s)\<rparr>
      else s)"

definition stopMonitoringTask :: "robot \<Rightarrow> robot" where
  "stopMonitoringTask s =
     (case intake_monitor_task s of
        Some i \<Rightarrow> s\<lparr>tasks := filter (\<lambda>p. fst p \<noteq> i) (tasks s), intake_monitor_task := None\<rparr>
      | None \<Rightarrow> s)"

text \<open>The two button blocks of the loop of \<^verbatim>\<open>opcontrol\<close>: R1 toggles forward, A toggles reverse.\<close>

definition press_R1 :: "robot \<Rightarrow> robot \<times> event list" where
  "press_R1 s =
     (if intake_direction s = FORWARD then
        (stopMonitoringTask
           (s\<lparr>intake_motor := move_velocity 0 (intake_motor s), intake_direction := STOPPED\<rparr>),
         [Move_velocity 0])
      else
        (startMonitoringTask
           (s\<lparr>intake_motor := move_velocity DESIRED_VELOCITY (intake_motor s),
              intake_direction := FORWARD\<rparr>),
         [Move_velocity DESIRED_VELOCITY]))"

definition press_A :: "robot \<Rightarrow> robot \<times> event list" where
  "press_A s =
     (if intake_direction s = BACKWARD then
        (stopMonitoringTask
           (s\<lparr>intake_motor := move_velocity 0 (intake_motor s), intake_direction := STOPPED\<rparr>),
         [Move_velocity 0])
      else
        (stopMonitoringTask
           (s\<lparr>intake_motor := move_velocity (- DESIRED_VELOCITY) (intake_motor s),
              intake_direction := BACKWARD\<rparr>),
         [Move_velocity (- DESIRED_VELOCITY)]))"

text \<open>
  One iteration of the loop of \<^verbatim>\<open>opcontrol\<close>; \<open>r1\<close> and \<open>a\<close> are what
  \<^verbatim>\<open>controller_get_digital_new_press\<close> returns for the two buttons.
\<close>

definition opcontrol :: "bool \<Rightarrow> bool \<Rightarrow> robot \<Rightarrow> robot \<times> event list" where
  "opcontrol r1 a s =
     (let (s1, es1) = (if r1 then press_R1 s else (s, []));
          (s2, es2) = (if a then press_A s1 else (s1, []))
      in (s2, es1 @ es2 @ [Delay 20]))"

text \<open>
  The scheduler runs one task at a time and changes task where a task sleeps: either one
  iteration of \<^verbatim>\<open>opcontrol\<close>, or one step of the monitor task with the given number on
  the shared motor. A number that is not in the scheduler runs nothing. (A monitor step
  that finds a stall does not sleep before the next one; letting \<^verbatim>\<open>opcontrol\<close> run
  between the two only adds behaviours.)
\<close>

datatype action = Opcontrol bool bool | Monitor nat sensors

definition schedule :: "nat \<Rightarrow> action \<Rightarrow> robot \<Rightarrow> robot \<times> event list" where
  "schedule g a s =
     (case a of
        Opcontrol r1 b \<Rightarrow> opcontrol r1 b s
      | Monitor i x \<Rightarrow>
          (case map_of (tasks s) i of
             None \<Rightarrow> (s, [])
           | Some t \<Rightarrow>
               (let (tm, es) = intake_monitor_task_function g x (t, intake_motor s)
                in (s\<lparr>intake_motor := snd tm,
                      tasks := map (\<lambda>p. if fst p = i then (i, fst tm) else p) (tasks s)\<rparr>, es))))"

fun robot_run :: "nat \<Rightarrow> action list \<Rightarrow> robot \<Rightarrow> robot \<times> event list" where
  "robot_run g [] s = (s, [])"
| "robot_run g (a # as) s =
     (let (s1, es1) = schedule g a s;
          (s2, es2) = robot_run g as s1
      in (s2, es1 @ es2))"

text \<open>
  The invariant of the program: the scheduler holds exactly the task the pointer names,
  a monitor runs only while the intake runs forward, and whenever that monitor is at the
  head of its loop it is not reversing and the target velocity is \<open>DESIRED_VELOCITY\<close>.
\<close>

definition robot_inv :: "robot \<Rightarrow> bool" where
  "robot_inv s =
     (case intake_monitor_task s of
        None \<Rightarrow> tasks s = []
      | Some i \<Rightarrow>
          (case tasks s of
             [p] \<Rightarrow> fst p = i \<and> intake_direction s = FORWARD
                    \<and> (place (snd p) = LoopHead \<longrightarrow>
                         \<not> reversing (snd p) \<and> target_velocity (intake_motor s) = DESIRED_VELOCITY)
           | _ \<Rightarrow> False))"

text \<open>
  A state of the program in the middle of a recovery: the operator starts the intake,
  the monitor sleeps through its grace period, finds the intake at 10 rpm, reverses it
  and polls once while the intake still turns backwards.
\<close>

definition reading :: "real \<Rightarrow> sensors" where
  "reading v = \<lparr>actual_velocity = v, is_stopped = (v = 0)\<rparr>"

definition recovering_robot :: robot where
  "recovering_robot =
     fst (robot_run 1000
            [Opcontrol True False, Monitor 0 (reading 0), Monitor 0 (reading 10),
             Monitor 0 (reading (- 100))]
            robot_start)"

subsection \<open>Operator control of the older program\<close>

text \<open>
  The unnamed file creates its monitor task once, before the loop of \<^verbatim>\<open>opcontrol\<close>, and
  never removes it. One iteration of that loop, with \<open>r1\<close> what \<^verbatim>\<open>controller_get_digital\<close>
  returns; the scheduler runs such an iteration or one step of the monitor.
\<close>

definition opcontrol_loop :: "bool \<Rightarrow> motor \<Rightarrow> motor \<times> event list" where
  "opcontrol_loop r1 m =
     (if r1 then (move_velocity desired_velocity m, [Move_velocity desired_velocity, Delay 20])
      else (move_velocity 0 m, [Move_velocity 0, Delay 20]))"

datatype action_loop = Operator bool | Tick sensors

definition schedule_loop ::
  "action_loop \<Rightarrow> location \<times> motor \<Rightarrow> (location \<times> motor) \<times> event list" where
  "schedule_loop a lm =
     (case a of
        Operator r1 \<Rightarrow> (let (m, es) = opcontrol_loop r1 (snd lm) in ((fst lm, m), es))
      | Tick x \<Rightarrow> intake_monitor_task_loop x lm)"

fun program_loop_run ::
  "action_loop list \<Rightarrow> location \<times> motor \<Rightarrow> (location \<times> motor) \<times> event list" where
  "program_loop_run [] lm = (lm, [])"
| "program_loop_run (a # as) lm =
     (let (lm1, es1) = schedule_loop a lm;
          (lm2, es2) = program_loop_run as lm1
      in (lm2, es1 @ es2))"

definition program_loop_start :: "location \<times> motor" where
  "program_loop_start = (LoopHead, \<lparr>target_velocity = 0\<rparr>)"

subsection \<open>What the monitor makes of its readings\<close>

text \<open>
  A reading taken at the head of the loop is a stall when the step reverses the intake,
  and the intake is running otherwise; a reading taken in the inner loop only polls the
  reversal.
\<close>

datatype classification = Running | Stalled | Reversing

definition classify :: "location \<Rightarrow> event list \<Rightarrow> classification" where
  "classify l es =
     (if l = ReverseWait then Reversing else if reversals es > 0 then Stalled else Running)"

fun monitor_readings :: "nat \<Rightarrow> sensors list \<Rightarrow> monitor \<times> motor \<Rightarrow> classification list" where
  "monitor_readings g [] tm = []"
| "monitor_readings g (x # xs) tm =
     (let (tm1, es1) = intake_monitor_task_function g x tm
      in classify (place (fst tm)) es1 # monitor_readings g xs tm1)"

text \<open>
  The property "after a stall is reported, no stall is reported again before a running
  reading", on a list of classifications; \<open>armed\<close> says whether a stall may be reported now.
\<close>

fun no_retrigger :: "bool \<Rightarrow> classification list \<Rightarrow> bool" where
  "no_retrigger armed [] = True"
| "no_retrigger armed (Stalled # cs) = (armed \<and> no_retrigger False cs)"
| "no_retrigger armed (Running # cs) = no_retrigger True cs"
| "no_retrigger armed (Reversing # cs) = no_retrigger armed cs"

text \<open>The scheduler holds exactly the task that the pointer names, and no other.\<close>

definition one_monitor :: "robot \<Rightarrow> bool" where
  "one_monitor s =
     (map fst (tasks s) = (case intake_monitor_task s of None \<Rightarrow> [] | Some i \<Rightarrow> [i]))"

text \<open>A state of the program with the monitor past its grace period, at the head of its loop.\<close>

definition monitoring_robot :: robot where
  "monitoring_robot =
     \<lparr>intake_monitor_task = Some 0, intake_motor = \<lparr>target_velocity = 600\<rparr>,
      intake_direction = FORWARD,
      tasks = [(0, \<lparr>reversing = False, spin_up_grace = False, place = LoopHead\<rparr>)],
      created = 1\<rparr>"

text \<open>
  What may run between the reversal and its end without disturbing it: iterations of
  \<^verbatim>\<open>opcontrol\<close> in which no button is newly pressed, and steps of the monitor \<open>i\<close>
  whose reading keeps it in its inner loop. For the older program: any iteration of its
  operator loop, and steps of the monitor while the motor is not stopped.
\<close>

definition undisturbed_wait :: "nat \<Rightarrow> action \<Rightarrow> bool" where
  "undisturbed_wait i a =
     (case a of
        Opcontrol r1 b \<Rightarrow> \<not> r1 \<and> \<not> b
      | Monitor j y \<Rightarrow> j = i \<and> abs_int (actual_velocity y) > 1)"

definition loop_wait :: "action_loop \<Rightarrow> bool" where
  "loop_wait a = (case a of Operator r1 \<Rightarrow> True | Tick y \<Rightarrow> \<not> is_stopped y)"

section \<open>Properties\<close>


subsection \<open>Steps of the monitors\<close>

lemma abs_int_floor: "abs_int r = \<lfloor>\<bar>r\<bar>\<rfloor>"
  by (simp add: abs_int_def to_int_def ceiling_def abs_if) linarith

lemma abs_int_less: "(abs_int r < 50) = (\<bar>r\<bar> < 50)"
  by (simp add: abs_int_floor floor_less_iff)

lemma abs_int_greater: "(abs_int r > 1) = (\<bar>r\<bar> \<ge> 2)"
  by (simp add: abs_int_floor less_floor_iff)

lemmas monitor_constants = DESIRED_VELOCITY_def VELOCITY_THRESHOLD_def REVERSE_DEGREES_def REVERSE_SPEED_def

lemma step_grace:
  "place t = LoopHead \<Longrightarrow> spin_up_grace t \<Longrightarrow>
   intake_monitor_task_function g x (t, m) = ((t\<lparr>spin_up_grace := False\<rparr>, m), [Delay g])"
  by (simp add: intake_monitor_task_function_def)

lemma step_stall:
  "place t = LoopHead \<Longrightarrow> \<not> spin_up_grace t \<Longrightarrow> \<not> reversing t \<Longrightarrow>
   \<bar>actual_velocity x\<bar> < 50 \<Longrightarrow> target_velocity m \<noteq> 0 \<Longrightarrow>
   intake_monitor_task_function g x (t, m) =
     ((t\<lparr>reversing := True, place := ReverseWait\<rparr>, m\<lparr>target_velocity := - 100\<rparr>),
      [Lcd_print 0 ''Intake stuck! Reversing...'' [],
       Lcd_print 2 ''Current velocity: %.2f'' [actual_velocity x],
       Move_relative (- 90) (- 100)])"
  by (simp add: intake_monitor_task_function_def monitor_constants move_relative_def abs_int_less)

lemma step_poll:
  "place t = ReverseWait \<Longrightarrow> \<bar>actual_velocity x\<bar> \<ge> 2 \<Longrightarrow>
   intake_monitor_task_function g x (t, m) = ((t, m), [Delay 10])"
  by (simp add: intake_monitor_task_function_def abs_int_greater)

lemma step_resume:
  "place t = ReverseWait \<Longrightarrow> \<bar>actual_velocity x\<bar> < 2 \<Longrightarrow>
   intake_monitor_task_function g x (t, m) =
     ((t\<lparr>reversing := False, place := LoopHead\<rparr>, m\<lparr>target_velocity := 600\<rparr>),
      [Move_velocity 600, Delay 20])"
  by (simp add: intake_monitor_task_function_def monitor_constants move_velocity_def abs_int_greater)

lemma monitor_run_append:
  "monitor_run g (xs @ ys) tm =
     (let (tm1, es1) = monitor_run g xs tm; (tm2, es2) = monitor_run g ys tm1 in (tm2, es1 @ es2))"
  by (induction xs arbitrary: tm) (auto split: prod.splits)

lemma monitor_run_polls:
  "place t = ReverseWait \<Longrightarrow> \<forall>x\<in>set xs. \<bar>actual_velocity x\<bar> \<ge> 2 \<Longrightarrow>
   monitor_run g xs (t, m) = ((t, m), replicate (length xs) (Delay 10))"
  by (induction xs) (simp_all add: step_poll)

lemma robot_inv_start: "robot_inv robot_start"
  by (simp add: robot_inv_def robot_start_def)

lemma robot_inv_press_R1: "robot_inv s \<Longrightarrow> robot_inv (fst (press_R1 s))"
  by (auto simp add: robot_inv_def press_R1_def startMonitoringTask_def stopMonitoringTask_def
      move_velocity_def monitor_start_def split: option.splits list.splits)

lemma robot_inv_press_A: "robot_inv s \<Longrightarrow> robot_inv (fst (press_A s))"
  by (auto simp add: robot_inv_def press_A_def startMonitoringTask_def stopMonitoringTask_def
      move_velocity_def monitor_start_def split: option.splits list.splits)

lemma opcontrol_fst:
  "fst (opcontrol r1 a s) =
     (let s1 = (if r1 then fst (press_R1 s) else s) in if a then fst (press_A s1) else s1)"
  by (simp add: opcontrol_def split: prod.splits)

lemma robot_inv_opcontrol: "robot_inv s \<Longrightarrow> robot_inv (fst (opcontrol r1 a s))"
  by (simp add: opcontrol_fst Let_def robot_inv_press_R1 robot_inv_press_A)

lemma robot_inv_monitor:
  assumes "robot_inv s"
  shows "robot_inv (fst (schedule g (Monitor i x) s))"
proof (cases "map_of (tasks s) i")
  case None
  then show ?thesis using assms by (simp add: schedule_def)
next
  case (Some t)
  with assms have ts: "tasks s = [(i, t)]" and ptr: "intake_monitor_task s = Some i"
    and dir: "intake_direction s = FORWARD"
    and head: "place t = LoopHead \<longrightarrow> \<not> reversing t \<and> target_velocity (intake_motor s) = DESIRED_VELOCITY"
    by (auto simp add: robot_inv_def split: option.splits list.splits if_splits)
  show ?thesis
    using ts ptr dir head
    by (cases "place t")
       (auto simp add: schedule_def robot_inv_def intake_monitor_task_function_def Let_def
          move_velocity_def move_relative_def)
qed

lemma robot_inv_schedule: "robot_inv s \<Longrightarrow> robot_inv (fst (schedule g a s))"
proof (cases a)
  case (Opcontrol r1 b)
  assume "robot_inv s"
  then show ?thesis using Opcontrol robot_inv_opcontrol [of s r1 b] by (simp add: schedule_def)
next
  case (Monitor i x)
  assume "robot_inv s"
  then show ?thesis using Monitor robot_inv_monitor [of s g i x] by simp
qed

lemma robot_run_fst_Cons:
  "fst (robot_run g (a # as) s) = fst (robot_run g as (fst (schedule g a s)))"
  by (simp split: prod.splits)

lemma robot_inv_run: "robot_inv s \<Longrightarrow> robot_inv (fst (robot_run g as s))"
proof (induction as arbitrary: s)
  case Nil
  then show ?case by simp
next
  case (Cons a as)
  then show ?case
    by (simp only: robot_run_fst_Cons robot_inv_schedule)
qed

lemma robot_inv_reachable: "robot_inv (fst (robot_run g as robot_start))"
  by (rule robot_inv_run [OF robot_inv_start])


lemmas loop_constants = desired_velocity_def velocity_threshold_def reverse_degrees_def reverse_speed_def

lemma loop_stall:
  "\<bar>actual_velocity x\<bar> < 50 \<Longrightarrow> target_velocity m \<noteq> 0 \<Longrightarrow>
   intake_monitor_task_loop x (LoopHead, m) =
     ((ReverseWait, m\<lparr>target_velocity := - 100\<rparr>),
      [Lcd_print 0 ''Intake stuck! Reversing...'' [], Move_relative (- 90) (- 100)])"
  by (simp add: intake_monitor_task_loop_def loop_constants move_relative_def abs_int_less)

lemma loop_poll:
  "\<not> is_stopped x \<Longrightarrow> intake_monitor_task_loop x (ReverseWait, m) = ((ReverseWait, m), [Delay 10])"
  by (simp add: intake_monitor_task_loop_def)

lemma loop_resume:
  "is_stopped x \<Longrightarrow>
   intake_monitor_task_loop x (ReverseWait, m) =
     ((LoopHead, m\<lparr>target_velocity := 200\<rparr>), [Move_velocity 200, Delay 20])"
  by (simp add: intake_monitor_task_loop_def loop_constants move_velocity_def)

lemma monitor_loop_run_append:
  "monitor_loop_run (xs @ ys) lm =
     (let (lm1, es1) = monitor_loop_run xs lm; (lm2, es2) = monitor_loop_run ys lm1
      in (lm2, es1 @ es2))"
  by (induction xs arbitrary: lm) (auto split: prod.splits)

lemma monitor_loop_run_polls:
  "\<forall>x\<in>set xs. \<not> is_stopped x \<Longrightarrow>
   monitor_loop_run xs (ReverseWait, m) = ((ReverseWait, m), replicate (length xs) (Delay 10))"
  by (induction xs) (simp_all add: loop_poll)

lemma monitor_readings_polls:
  "place t = ReverseWait \<Longrightarrow> \<forall>x\<in>set xs. \<bar>actual_velocity x\<bar> \<ge> 2 \<Longrightarrow>
   monitor_readings g xs (t, m) = replicate (length xs) Reversing"
  by (induction xs) (simp_all add: step_poll classify_def)

lemma loop_inv_schedule:
  assumes "fst lm = LoopHead \<longrightarrow> target_velocity (snd lm) = 0 \<or> target_velocity (snd lm) = 200"
  shows "fst (fst (schedule_loop a lm)) = LoopHead \<longrightarrow>
         target_velocity (snd (fst (schedule_loop a lm))) = 0
         \<or> target_velocity (snd (fst (schedule_loop a lm))) = 200"
  using assms
  by (cases a; cases lm; cases "fst lm")
     (auto simp add: schedule_loop_def opcontrol_loop_def intake_monitor_task_loop_def
        move_velocity_def move_relative_def loop_constants Let_def)

lemma program_loop_run_fst_Cons:
  "fst (program_loop_run (a # as) lm) = fst (program_loop_run as (fst (schedule_loop a lm)))"
  by (simp split: prod.splits)

lemma loop_inv_run:
  "fst lm = LoopHead \<longrightarrow> target_velocity (snd lm) = 0 \<or> target_velocity (snd lm) = 200 \<Longrightarrow>
   fst (fst (program_loop_run as lm)) = LoopHead \<longrightarrow>
     target_velocity (snd (fst (program_loop_run as lm))) = 0
     \<or> target_velocity (snd (fst (program_loop_run as lm))) = 200"
proof (induction as arbitrary: lm)
  case Nil
  then show ?case by simp
next
  case (Cons a as)
  show ?case
    unfolding program_loop_run_fst_Cons
    by (rule Cons.IH) (rule loop_inv_schedule [OF Cons.prems])
qed

lemma loop_inv_reachable:
  "fst (fst (program_loop_run as program_loop_start)) = LoopHead \<Longrightarrow>
   target_velocity (snd (fst (program_loop_run as program_loop_start))) \<noteq> 0 \<Longrightarrow>
   target_velocity (snd (fst (program_loop_run as program_loop_start))) = 200"
  using loop_inv_run [of program_loop_start as] by (auto simp add: program_loop_start_def)

lemma reversals_simps:
  "reversals [] = 0"
  "reversals (Move_relative p v # es) = Suc (reversals es)"
  "reversals (Move_velocity v # es) = reversals es"
  "reversals (Delay d # es) = reversals es"
  "reversals (Lcd_print l f xs # es) = reversals es"
  "reversals (Set_text l c str # es) = reversals es"
  by (simp_all add: reversals_def)

lemma stall_reports_simps:
  "stall_reports [] = 0"
  "stall_reports (Lcd_print l f xs # es) =
     (if l = 0 \<and> f = ''Intake stuck! Reversing...'' \<and> xs = [] then Suc (stall_reports es)
      else stall_reports es)"
  "stall_reports (Move_relative p v # es) = stall_reports es"
  "stall_reports (Move_velocity v # es) = stall_reports es"
  "stall_reports (Delay d # es) = stall_reports es"
  "stall_reports (Set_text l c str # es) = stall_reports es"
  by (simp_all add: stall_reports_def)

lemma stall_reports_replicate_Delay: "stall_reports (replicate n (Delay d)) = 0"
  by (induction n) (simp_all add: stall_reports_simps)

lemma recovering_robot_eq:
  "recovering_robot =
     \<lparr>intake_monitor_task = Some 0, intake_motor = \<lparr>target_velocity = - 100\<rparr>,
      intake_direction = FORWARD,
      tasks = [(0, \<lparr>reversing = True, spin_up_grace = False, place = ReverseWait\<rparr>)],
      created = 1\<rparr>"
  by (simp add: recovering_robot_def schedule_def opcontrol_def press_R1_def
      startMonitoringTask_def robot_start_def move_velocity_def move_relative_def
      intake_monitor_task_function_def monitor_start_def reading_def monitor_constants
      abs_int_def to_int_def)

lemma one_monitor_stop:
  "one_monitor s \<Longrightarrow> tasks (stopMonitoringTask s) = [] \<and> intake_monitor_task (stopMonitoringTask s) = None"
  by (auto simp add: one_monitor_def stopMonitoringTask_def split: option.splits)

lemma one_monitor_schedule: "one_monitor s \<Longrightarrow> one_monitor (fst (schedule g a s))"
proof (cases a)
  case (Opcontrol r1 b)
  assume "one_monitor s"
  then show ?thesis
    using Opcontrol
    by (auto simp add: schedule_def opcontrol_def press_R1_def press_A_def one_monitor_def
        startMonitoringTask_def stopMonitoringTask_def split: option.splits)
next
  case (Monitor i x)
  assume "one_monitor s"
  then show ?thesis
    using Monitor
    by (auto simp add: schedule_def one_monitor_def comp_def split: option.splits prod.splits)
qed

lemma one_monitor_run: "one_monitor s \<Longrightarrow> one_monitor (fst (robot_run g as s))"
proof (induction as arbitrary: s)
  case Nil
  then show ?case by simp
next
  case (Cons a as)
  then show ?case
    by (simp only: robot_run_fst_Cons one_monitor_schedule)
qed

lemma robot_run_append:
  "robot_run g (as @ bs) s =
     (let (s1, es1) = robot_run g as s; (s2, es2) = robot_run g bs s1 in (s2, es1 @ es2))"
  by (induction as arbitrary: s) (auto split: prod.splits)

lemma program_loop_run_append:
  "program_loop_run (as @ bs) lm =
     (let (lm1, es1) = program_loop_run as lm; (lm2, es2) = program_loop_run bs lm1
      in (lm2, es1 @ es2))"
  by (induction as arbitrary: lm) (auto split: prod.splits)

lemma commands_append: "commands (es @ fs) = commands es @ commands fs"
  by (simp add: commands_def)

lemma reversals_append: "reversals (es @ fs) = reversals es + reversals fs"
  by (simp add: reversals_def)

lemma undisturbed_step:
  assumes "tasks w = [(i, t)]" and "place t = ReverseWait" and "undisturbed_wait i a"
  shows "fst (schedule g a w) = w \<and> commands (snd (schedule g a w)) = []"
proof (cases a)
  case (Opcontrol r1 b)
  with assms(3) show ?thesis
    by (simp add: undisturbed_wait_def schedule_def opcontrol_def commands_def)
next
  case (Monitor j y)
  with assms(3) have j: "j = i" and y: "abs_int (actual_velocity y) > 1"
    by (simp_all add: undisturbed_wait_def)
  have "intake_monitor_task_function g y (t, intake_motor w) = ((t, intake_motor w), [Delay 10])"
    using assms(2) y by (simp add: intake_monitor_task_function_def)
  then show ?thesis
    using Monitor j assms(1) by (simp add: schedule_def commands_def)
qed

lemma undisturbed_run:
  assumes "tasks w = [(i, t)]" and "place t = ReverseWait"
  shows "\<forall>a\<in>set ws. undisturbed_wait i a \<Longrightarrow>
         fst (robot_run g ws w) = w \<and> commands (snd (robot_run g ws w)) = []"
proof (induction ws)
  case Nil
  then show ?case by (simp add: commands_def)
next
  case (Cons a ws)
  from Cons.prems have "undisturbed_wait i a"
    by simp
  then have "fst (schedule g a w) = w \<and> commands (snd (schedule g a w)) = []"
    using undisturbed_step [OF assms, of a g] by simp
  then obtain es1 where step: "schedule g a w = (w, es1)" and es1: "commands es1 = []"
    by (cases "schedule g a w") auto
  from Cons have "fst (robot_run g ws w) = w \<and> commands (snd (robot_run g ws w)) = []"
    by simp
  then obtain es2 where rest: "robot_run g ws w = (w, es2)" and es2: "commands es2 = []"
    by (cases "robot_run g ws w") auto
  show ?case
    by (simp add: step rest es1 es2 commands_append)
qed

lemma loop_wait_step:
  "loop_wait a \<Longrightarrow>
   fst (fst (schedule_loop a (ReverseWait, m))) = ReverseWait
   \<and> reversals (snd (schedule_loop a (ReverseWait, m))) = 0"
  by (cases a)
     (simp_all add: loop_wait_def schedule_loop_def opcontrol_loop_def
        intake_monitor_task_loop_def reversals_simps)

lemma loop_wait_run:
  "\<forall>a\<in>set ws. loop_wait a \<Longrightarrow>
   fst (fst (program_loop_run ws (ReverseWait, m))) = ReverseWait
   \<and> reversals (snd (program_loop_run ws (ReverseWait, m))) = 0"
proof (induction ws arbitrary: m)
  case Nil
  then show ?case by (simp add: reversals_simps)
next
  case (Cons a ws)
  from Cons.prems have "loop_wait a"
    by simp
  then have step: "fst (fst (schedule_loop a (ReverseWait, m))) = ReverseWait"
    "reversals (snd (schedule_loop a (ReverseWait, m))) = 0"
    using loop_wait_step [of a m] by simp_all
  obtain m1 es1 where s1: "schedule_loop a (ReverseWait, m) = ((ReverseWait, m1), es1)"
    using step(1) by (cases "schedule_loop a (ReverseWait, m)") auto
  have es1: "reversals es1 = 0"
    using step(2) by (simp add: s1)
  from Cons have "fst (fst (program_loop_run ws (ReverseWait, m1))) = ReverseWait
                  \<and> reversals (snd (program_loop_run ws (ReverseWait, m1))) = 0"
    by simp
  then obtain m2 es2 where rest: "program_loop_run ws (ReverseWait, m1) = ((ReverseWait, m2), es2)"
    and es2: "reversals es2 = 0"
    by (cases "program_loop_run ws (ReverseWait, m1)") auto
  show ?case
    by (simp add: s1 rest es1 es2 reversals_append)
qed

subsection \<open>The grace period\<close>

text \<open>
  C1, as stated, fails for the older monitor, which has no grace window. In the older
  program the operator holds R1, the motor is commanded to 200 and has not begun to
  turn: the first reading the monitor takes after that is treated as a stall and the
  intake is reversed.
\<close>

theorem older_monitor_no_grace_counterexample:
  "program_loop_run [Operator True, Tick (reading 0)] program_loop_start
     = ((ReverseWait, \<lparr>target_velocity = - 100\<rparr>),
        [Move_velocity 200, Delay 20,
         Lcd_print 0 ''Intake stuck! Reversing...'' [], Move_relative (- 90) (- 100)])
   \<and> intake_monitor_task_loop (reading 0) (LoopHead, \<lparr>target_velocity = 200\<rparr>)
       = ((ReverseWait, \<lparr>target_velocity = - 100\<rparr>),
          [Lcd_print 0 ''Intake stuck! Reversing...'' [], Move_relative (- 90) (- 100)])"
  by (simp add: program_loop_start_def schedule_loop_def opcontrol_loop_def
      intake_monitor_task_loop_def reading_def loop_constants move_velocity_def
      move_relative_def abs_int_def to_int_def)

text \<open>
  C1, amended. In HighStakes-MonitorIntake-Pros.cpp, during the grace window after the
  monitor task starts or starts again, the reading the task takes is classified as
  running and no stall check or reversal is made, however low the actual velocity and
  whatever the commanded velocity: the first step of a new task only sleeps for the grace
  period and leaves the motor alone, and this is what follows every start of the monitor
  by the operator, in any state the program can reach. The older monitor has no grace
  window: its first reading is checked like any other, and the intake is reversed exactly
  when the reading is below 50 in absolute value and the target velocity is not 0.
\<close>

theorem grace_period_skips_stall_check:
  assumes "s = fst (robot_run g as robot_start)" and "intake_direction s \<noteq> FORWARD"
  shows "intake_monitor_task_function g x (monitor_start, m)
           = ((monitor_start\<lparr>spin_up_grace := False\<rparr>, m), [Delay g])
         \<and> classify LoopHead (snd (intake_monitor_task_function g x (monitor_start, m))) = Running
         \<and> snd (robot_run g [Opcontrol True False, Monitor (created s) x] s)
             = [Move_velocity DESIRED_VELOCITY, Delay 20, Delay g]
         \<and> tasks (fst (robot_run g [Opcontrol True False, Monitor (created s) x] s))
             = [(created s, monitor_start\<lparr>spin_up_grace := False\<rparr>)]
         \<and> target_velocity (intake_motor (fst (robot_run g [Opcontrol True False, Monitor (created s) x] s)))
             = DESIRED_VELOCITY
         \<and> (reversals (snd (intake_monitor_task_loop x (LoopHead, m))) > 0)
             = (\<bar>actual_velocity x\<bar> < 50 \<and> target_velocity m \<noteq> 0)"
proof -
  have first: "intake_monitor_task_function g x (monitor_start, m)
                 = ((monitor_start\<lparr>spin_up_grace := False\<rparr>, m), [Delay g])" for m
    by (simp add: step_grace monitor_start_def)
  have "robot_inv s"
    using assms(1) robot_inv_reachable by simp
  with assms(2) have idle: "intake_monitor_task s = None" "tasks s = []"
    by (auto simp add: robot_inv_def split: option.splits list.splits)
  have op: "opcontrol True False s =
              (s\<lparr>intake_motor := move_velocity DESIRED_VELOCITY (intake_motor s),
                 intake_direction := FORWARD,
                 intake_monitor_task := Some (created s),
                 tasks := [(created s, monitor_start)],
                 created := Suc (created s)\<rparr>,
               [Move_velocity DESIRED_VELOCITY, Delay 20])"
    using assms(2) idle by (simp add: opcontrol_def press_R1_def startMonitoringTask_def)
  have older: "(reversals (snd (intake_monitor_task_loop x (LoopHead, m))) > 0)
                 = (\<bar>actual_velocity x\<bar> < 50 \<and> target_velocity m \<noteq> 0)"
    by (simp add: intake_monitor_task_loop_def Let_def reversals_simps velocity_threshold_def
        abs_int_less)
  show ?thesis
    by (simp add: first older classify_def reversals_simps schedule_def op move_velocity_def)
qed

theorem grace_period_skips_stall_check_witness:
  "\<lparr>intake_monitor_task = None, intake_motor = \<lparr>target_velocity = 0\<rparr>,
     intake_direction = STOPPED, tasks = [], created = 1\<rparr>
     = fst (robot_run 1000 [Opcontrol True False, Opcontrol True False] robot_start)
   \<and> intake_direction \<lparr>intake_monitor_task = None, intake_motor = \<lparr>target_velocity = 0\<rparr>,
        intake_direction = STOPPED, tasks = [], created = 1\<rparr> \<noteq> FORWARD
   \<and> snd (robot_run 1000 [Opcontrol True False, Monitor 1 (reading 0)]
            \<lparr>intake_monitor_task = None, intake_motor = \<lparr>target_velocity = 0\<rparr>,
             intake_direction = STOPPED, tasks = [], created = 1\<rparr>)
       = [Move_velocity DESIRED_VELOCITY, Delay 20, Delay 1000]"
proof -
  let ?s = "\<lparr>intake_monitor_task = None, intake_motor = \<lparr>target_velocity = 0\<rparr>,
             intake_direction = STOPPED, tasks = [], created = 1\<rparr>"
  have h1: "?s = fst (robot_run 1000 [Opcontrol True False, Opcontrol True False] robot_start)"
    by (simp add: schedule_def opcontrol_def press_R1_def startMonitoringTask_def
        stopMonitoringTask_def robot_start_def move_velocity_def)
  have h2: "intake_direction ?s \<noteq> FORWARD"
    by simp
  have "snd (robot_run 1000 [Opcontrol True False, Monitor (created ?s) (reading 0)] ?s)
          = [Move_velocity DESIRED_VELOCITY, Delay 20, Delay 1000]"
    using grace_period_skips_stall_check [OF h1 h2, of "reading 0" "\<lparr>target_velocity = 600\<rparr>"]
    by blast
  moreover have "created ?s = 1"
    by simp
  ultimately have "snd (robot_run 1000 [Opcontrol True False, Monitor 1 (reading 0)] ?s)
          = [Move_velocity DESIRED_VELOCITY, Delay 20, Delay 1000]"
    by (simp only:)
  with h1 h2 show ?thesis
    by blast
qed

subsection \<open>Manual commands during a recovery\<close>

text \<open>
  C2, as stated, fails. The claim: while the recovery holds the intake, a manual
  velocity command is rejected and leaves the target velocity unchanged. The program has
  no arbiter: in the state \<open>recovering_robot\<close> the monitor is waiting for its reversal to
  end and the target velocity is the reverse speed; an R1 press is carried out at once
  and the target velocity becomes 0.
\<close>

theorem manual_command_during_recovery_counterexample:
  "tasks recovering_robot = [(0, \<lparr>reversing = True, spin_up_grace = False, place = ReverseWait\<rparr>)]
   \<and> target_velocity (intake_motor recovering_robot) = - 100
   \<and> snd (opcontrol True False recovering_robot) = [Move_velocity 0, Delay 20]
   \<and> target_velocity (intake_motor (fst (opcontrol True False recovering_robot))) = 0
   \<and> target_velocity (intake_motor (fst (opcontrol True False recovering_robot)))
       \<noteq> target_velocity (intake_motor recovering_robot)"
  by (simp add: recovering_robot_eq opcontrol_def press_R1_def stopMonitoringTask_def
      move_velocity_def)

text \<open>
  C2, amended. A manual command that \<^verbatim>\<open>opcontrol\<close> issues while the monitor waits for its
  reversal to end is never rejected: in every state the program can reach, a press of R1
  or A at that moment writes its velocity to the motor (0 for R1, \<open>- DESIRED_VELOCITY\<close>
  for A, which comes second), and the same press removes the monitor task, which ends
  the recovery.
\<close>

theorem manual_command_takes_effect:
  assumes "s = fst (robot_run g as robot_start)"
    and "tasks s = [(i, t)]" and "place t = ReverseWait"
    and "r1 \<or> a"
  shows "commands (snd (opcontrol r1 a s))
           = (if r1 then [Move_velocity 0] else [])
             @ (if a then [Move_velocity (- DESIRED_VELOCITY)] else [])
         \<and> target_velocity (intake_motor (fst (opcontrol r1 a s)))
             = (if a then - DESIRED_VELOCITY else 0)
         \<and> tasks (fst (opcontrol r1 a s)) = []
         \<and> intake_monitor_task (fst (opcontrol r1 a s)) = None"
proof -
  have inv: "robot_inv s"
    using assms(1) robot_inv_reachable by simp
  with assms(2) have fwd: "intake_direction s = FORWARD" and ptr: "intake_monitor_task s = Some i"
    by (auto simp add: robot_inv_def split: option.splits list.splits)
  show ?thesis
    using assms(2,4) fwd ptr
    by (auto simp add: opcontrol_def press_R1_def press_A_def stopMonitoringTask_def
        move_velocity_def commands_def)
qed

theorem manual_command_takes_effect_witness:
  "recovering_robot = fst (robot_run 1000
      [Opcontrol True False, Monitor 0 (reading 0), Monitor 0 (reading 10),
       Monitor 0 (reading (- 100))] robot_start)
   \<and> tasks recovering_robot = [(0, \<lparr>reversing = True, spin_up_grace = False, place = ReverseWait\<rparr>)]
   \<and> place \<lparr>reversing = True, spin_up_grace = False, place = ReverseWait\<rparr> = ReverseWait
   \<and> commands (snd (opcontrol False True recovering_robot)) = [Move_velocity (- DESIRED_VELOCITY)]
   \<and> target_velocity (intake_motor (fst (opcontrol False True recovering_robot))) = - DESIRED_VELOCITY
   \<and> tasks (fst (opcontrol False True recovering_robot)) = []"
proof -
  have h1: "recovering_robot = fst (robot_run 1000
      [Opcontrol True False, Monitor 0 (reading 0), Monitor 0 (reading 10),
       Monitor 0 (reading (- 100))] robot_start)"
    by (rule recovering_robot_def)
  have h2: "tasks recovering_robot
              = [(0, \<lparr>reversing = True, spin_up_grace = False, place = ReverseWait\<rparr>)]"
    by (simp add: recovering_robot_eq)
  have h3: "place \<lparr>reversing = True, spin_up_grace = False, place = ReverseWait\<rparr> = ReverseWait"
    by simp
  have h4: "False \<or> True"
    by simp
  show ?thesis
    using h1 h2 h3 manual_command_takes_effect [OF h1 h2 h3 h4]
    by simp
qed

subsection \<open>Stall reports and the recovery\<close>

text \<open>
  C3, as stated, fails. The claim: after a stall is reported, none is reported again
  before the recovery is complete and a running reading has been seen. With the intake
  commanded to 600 and readings 0 (grace period), 10, 0 (reversal complete) and 10, the
  monitor reports a stall, recovers, and reports a stall again on its very next reading,
  with no running reading in between.
\<close>

theorem stall_reported_again_counterexample:
  "monitor_readings 1000 [reading 0, reading 10, reading 0, reading 10]
       (monitor_start, \<lparr>target_velocity = 600\<rparr>)
     = [Running, Stalled, Reversing, Stalled]
   \<and> \<not> no_retrigger True
         (monitor_readings 1000 [reading 0, reading 10, reading 0, reading 10]
            (monitor_start, \<lparr>target_velocity = 600\<rparr>))
   \<and> stall_reports (snd (monitor_run 1000 [reading 0, reading 10, reading 0, reading 10]
                           (monitor_start, \<lparr>target_velocity = 600\<rparr>))) = 2"
proof -
  have r: "monitor_readings 1000 [reading 0, reading 10, reading 0, reading 10]
             (monitor_start, \<lparr>target_velocity = 600\<rparr>)
           = [Running, Stalled, Reversing, Stalled]"
    by (simp add: intake_monitor_task_function_def monitor_start_def reading_def classify_def
        reversals_simps monitor_constants move_relative_def move_velocity_def
        abs_int_def to_int_def)
  have e: "snd (monitor_run 1000 [reading 0, reading 10, reading 0, reading 10]
                  (monitor_start, \<lparr>target_velocity = 600\<rparr>))
           = [Delay 1000,
              Lcd_print 0 ''Intake stuck! Reversing...'' [],
              Lcd_print 2 ''Current velocity: %.2f'' [10],
              Move_relative (- 90) (- 100),
              Move_velocity 600, Delay 20,
              Lcd_print 0 ''Intake stuck! Reversing...'' [],
              Lcd_print 2 ''Current velocity: %.2f'' [10],
              Move_relative (- 90) (- 100)]"
    by (simp add: intake_monitor_task_function_def monitor_start_def reading_def
        monitor_constants move_relative_def move_velocity_def abs_int_def to_int_def)
  show ?thesis
    by (simp only: r e) (simp add: stall_reports_simps)
qed

text \<open>
  C3, amended. Once a stall is reported and the recovery begins, no stall is reported
  until the recovery is complete: a step reports at most one stall, a step that reports
  one leaves the task in the inner loop, and as long as the readings taken there say that
  the intake still moves, the task only sleeps and polls again. For the monitor of
  HighStakes-MonitorIntake-Pros.cpp the intake still moves when the reading, cut to an
  \<^verbatim>\<open>int\<close>, is above 1 in absolute value, that is when the reading is at least 2 in
  absolute value; for the older monitor, when the motor is not stopped. (The first
  reading after the recovery is checked like any other.)
\<close>

theorem no_stall_report_during_reversal:
  assumes "place t = ReverseWait"
    and "\<forall>x\<in>set xs. \<bar>actual_velocity x\<bar> \<ge> 2"
    and "\<forall>y\<in>set ys. \<not> is_stopped y"
  shows "monitor_run g xs (t, m) = ((t, m), replicate (length xs) (Delay 10))
         \<and> stall_reports (snd (monitor_run g xs (t, m))) = 0
         \<and> monitor_readings g xs (t, m) = replicate (length xs) Reversing
         \<and> monitor_loop_run ys (ReverseWait, m) = ((ReverseWait, m), replicate (length ys) (Delay 10))
         \<and> stall_reports (snd (monitor_loop_run ys (ReverseWait, m))) = 0
         \<and> stall_reports (snd (intake_monitor_task_function g x (t', m'))) \<le> 1
         \<and> (stall_reports (snd (intake_monitor_task_function g x (t', m'))) = 1 \<longrightarrow>
              place t' = LoopHead
              \<and> place (fst (fst (intake_monitor_task_function g x (t', m')))) = ReverseWait)
         \<and> stall_reports (snd (intake_monitor_task_loop x (l, m'))) \<le> 1
         \<and> (stall_reports (snd (intake_monitor_task_loop x (l, m'))) = 1 \<longrightarrow>
              l = LoopHead \<and> fst (fst (intake_monitor_task_loop x (l, m'))) = ReverseWait)
         \<and> (place (fst (fst (intake_monitor_task_function g x (t, m)))) = ReverseWait)
             = (\<bar>actual_velocity x\<bar> \<ge> 2)"
proof -
  have a: "monitor_run g xs (t, m) = ((t, m), replicate (length xs) (Delay 10))"
    using assms(1,2) by (rule monitor_run_polls)
  have b: "monitor_loop_run ys (ReverseWait, m) = ((ReverseWait, m), replicate (length ys) (Delay 10))"
    using assms(3) by (rule monitor_loop_run_polls)
  have c: "monitor_readings g xs (t, m) = replicate (length xs) Reversing"
    using assms(1,2) by (rule monitor_readings_polls)
  have d: "stall_reports (snd (intake_monitor_task_function g x (t', m'))) \<le> 1
           \<and> (stall_reports (snd (intake_monitor_task_function g x (t', m'))) = 1 \<longrightarrow>
                place t' = LoopHead
                \<and> place (fst (fst (intake_monitor_task_function g x (t', m')))) = ReverseWait)"
    by (cases "place t'")
       (simp_all add: intake_monitor_task_function_def Let_def stall_reports_simps)
  have e: "stall_reports (snd (intake_monitor_task_loop x (l, m'))) \<le> 1
           \<and> (stall_reports (snd (intake_monitor_task_loop x (l, m'))) = 1 \<longrightarrow>
                l = LoopHead \<and> fst (fst (intake_monitor_task_loop x (l, m'))) = ReverseWait)"
    by (cases l) (simp_all add: intake_monitor_task_loop_def Let_def stall_reports_simps)
  have f: "(place (fst (fst (intake_monitor_task_function g x (t, m)))) = ReverseWait)
             = (\<bar>actual_velocity x\<bar> \<ge> 2)"
    using assms(1) by (simp add: intake_monitor_task_function_def Let_def abs_int_greater)
  show ?thesis
    using d e f by (simp add: a b c stall_reports_replicate_Delay)
qed

theorem no_stall_report_during_reversal_witness:
  "place \<lparr>reversing = True, spin_up_grace = False, place = ReverseWait\<rparr> = ReverseWait
   \<and> \<bar>actual_velocity (reading (- 100))\<bar> \<ge> 2 \<and> \<bar>actual_velocity (reading (- 40))\<bar> \<ge> 2
   \<and> \<bar>actual_velocity (reading (- 2))\<bar> \<ge> 2
   \<and> \<not> is_stopped (reading (- 100)) \<and> \<not> is_stopped (reading (- 40))
   \<and> monitor_run 1000 [reading (- 100), reading (- 40), reading (- 2)]
        (\<lparr>reversing = True, spin_up_grace = False, place = ReverseWait\<rparr>, \<lparr>target_velocity = - 100\<rparr>)
       = ((\<lparr>reversing = True, spin_up_grace = False, place = ReverseWait\<rparr>, \<lparr>target_velocity = - 100\<rparr>),
          [Delay 10, Delay 10, Delay 10])
   \<and> monitor_loop_run [reading (- 100), reading (- 40)] (ReverseWait, \<lparr>target_velocity = - 100\<rparr>)
       = ((ReverseWait, \<lparr>target_velocity = - 100\<rparr>), [Delay 10, Delay 10])"
proof -
  have h1: "place \<lparr>reversing = True, spin_up_grace = False, place = ReverseWait\<rparr> = ReverseWait"
    by simp
  have h2: "\<forall>x\<in>set [reading (- 100), reading (- 40), reading (- 2)]. \<bar>actual_velocity x\<bar> \<ge> 2"
    by (simp add: reading_def)
  have h3: "\<forall>y\<in>set [reading (- 100), reading (- 40)]. \<not> is_stopped y"
    by (simp add: reading_def)
  show ?thesis
    using h1 h2 h3
      no_stall_report_during_reversal [OF h1 h2 h3, of 1000 "\<lparr>target_velocity = - 100\<rparr>"]
    by (simp add: numeral_3_eq_3)
qed

subsection \<open>No command, no stall\<close>

text \<open>
  C4. With a target velocity of 0, no step of either monitor reports a stall or starts a
  reversal, whatever the actual velocity is; at the head of the loop such a step leaves
  the motor alone.
\<close>

theorem no_stall_without_command:
  assumes "target_velocity m = 0"
  shows "stall_reports (snd (intake_monitor_task_function g x (t, m))) = 0
         \<and> reversals (snd (intake_monitor_task_function g x (t, m))) = 0
         \<and> classify (place t) (snd (intake_monitor_task_function g x (t, m))) \<noteq> Stalled
         \<and> (place t = LoopHead \<longrightarrow> snd (fst (intake_monitor_task_function g x (t, m))) = m)
         \<and> stall_reports (snd (intake_monitor_task_loop x (l, m))) = 0
         \<and> reversals (snd (intake_monitor_task_loop x (l, m))) = 0
         \<and> (l = LoopHead \<longrightarrow> intake_monitor_task_loop x (l, m) = ((LoopHead, m), [Delay 20]))"
  using assms
  by (cases "place t"; cases l)
     (simp_all add: intake_monitor_task_function_def intake_monitor_task_loop_def Let_def
        classify_def reversals_simps stall_reports_simps)

theorem no_stall_without_command_witness:
  "target_velocity \<lparr>target_velocity = 0\<rparr> = 0
   \<and> reversals (snd (intake_monitor_task_function 1000 (reading 3)
         (\<lparr>reversing = False, spin_up_grace = False, place = LoopHead\<rparr>, \<lparr>target_velocity = 0\<rparr>))) = 0
   \<and> intake_monitor_task_loop (reading 3) (LoopHead, \<lparr>target_velocity = 0\<rparr>)
       = ((LoopHead, \<lparr>target_velocity = 0\<rparr>), [Delay 20])"
  using no_stall_without_command
    [of "\<lparr>target_velocity = 0\<rparr>" 1000 "reading 3"
        "\<lparr>reversing = False, spin_up_grace = False, place = LoopHead\<rparr>" LoopHead]
  by simp

subsection \<open>The recovery maneuver\<close>

text \<open>
  C5, as stated, fails. The claim: in every stall episode the recovery reverses, polls
  until the motion is complete and then commands the velocity from before the stall
  again. The intake runs forward at 600, the monitor finds it at 10 rpm, reverses it
  and polls once; then the operator presses R1. The press stops the intake and removes
  the monitor task: the velocity of 600 is never commanded again and the target velocity
  stays 0, whatever the motor does afterwards.
\<close>

theorem recovery_cut_short_counterexample:
  "monitoring_robot
     = fst (robot_run 1000 [Opcontrol True False, Monitor 0 (reading 0)] robot_start)
   \<and> target_velocity (intake_motor monitoring_robot) = 600
   \<and> snd (robot_run 1000
            [Monitor 0 (reading 10), Monitor 0 (reading (- 100)), Opcontrol True False,
             Monitor 0 (reading 0)]
            monitoring_robot)
       = [Lcd_print 0 ''Intake stuck! Reversing...'' [],
          Lcd_print 2 ''Current velocity: %.2f'' [10],
          Move_relative (- 90) (- 100), Delay 10, Move_velocity 0, Delay 20]
   \<and> target_velocity (intake_motor (fst (robot_run 1000
            [Monitor 0 (reading 10), Monitor 0 (reading (- 100)), Opcontrol True False,
             Monitor 0 (reading 0)]
            monitoring_robot))) = 0"
  by (simp add: monitoring_robot_def schedule_def opcontrol_def press_R1_def
      startMonitoringTask_def stopMonitoringTask_def robot_start_def move_velocity_def
      move_relative_def intake_monitor_task_function_def monitor_start_def reading_def
      monitor_constants abs_int_def to_int_def)

text \<open>
  C5, amended. For every stall found in a state that the program can reach, if no
  button is newly pressed before the motion is complete, the recovery issues one relative
  move of \<open>- REVERSE_DEGREES\<close> at \<open>REVERSE_SPEED\<close>, polls until the motion is complete
  (the reading, cut to an \<^verbatim>\<open>int\<close>, at most 1 in absolute value, that is the reading
  below 2 in absolute value), and then commands \<open>DESIRED_VELOCITY\<close>, which is the
  velocity commanded before the stall: between the reversal and that command nothing is
  commanded, and the program is in the state it was in before the stall. (A press in
  between removes the monitor and ends the recovery, as in C2.) In the older program,
  whose operator loop commands the motor in every iteration, the monitor polls until the
  motor is stopped and then commands \<open>desired_velocity\<close>, the velocity commanded before
  the stall, whatever the operator loop does in between; nothing is reversed in between.
  The readings are \<open>x\<close> at the head of the loop and \<open>z\<close> (\<open>z'\<close> for the older monitor) at
  the end of the motion; \<open>ws\<close> and \<open>ws'\<close> are what the scheduler runs in between.
\<close>

theorem recovery_resumes_commanded_velocity:
  assumes "s = fst (robot_run g as robot_start)"
    and "map_of (tasks s) i = Some t" and "place t = LoopHead" and "\<not> spin_up_grace t"
    and "target_velocity (intake_motor s) \<noteq> 0"
    and "\<bar>actual_velocity x\<bar> < 50"
    and "\<forall>a\<in>set ws. undisturbed_wait i a" and "\<bar>actual_velocity z\<bar> < 2"
    and "lm = fst (program_loop_run bs program_loop_start)"
    and "fst lm = LoopHead" and "target_velocity (snd lm) \<noteq> 0"
    and "\<forall>a\<in>set ws'. loop_wait a" and "is_stopped z'"
  shows "target_velocity (intake_motor s) = DESIRED_VELOCITY
         \<and> fst (robot_run g (Monitor i x # ws @ [Monitor i z]) s) = s
         \<and> (\<exists>es. snd (robot_run g (Monitor i x # ws @ [Monitor i z]) s)
                    = [Lcd_print 0 ''Intake stuck! Reversing...'' [],
                       Lcd_print 2 ''Current velocity: %.2f'' [actual_velocity x],
                       Move_relative (- REVERSE_DEGREES) REVERSE_SPEED]
                      @ es @ [Move_velocity DESIRED_VELOCITY, Delay 20]
                  \<and> commands es = [])
         \<and> target_velocity (snd lm) = desired_velocity
         \<and> fst (program_loop_run (Tick x # ws' @ [Tick z']) lm) = lm
         \<and> (\<exists>es. snd (program_loop_run (Tick x # ws' @ [Tick z']) lm)
                    = [Lcd_print 0 ''Intake stuck! Reversing...'' [],
                       Move_relative (- reverse_degrees) reverse_speed]
                      @ es @ [Move_velocity desired_velocity, Delay 20]
                  \<and> reversals es = 0)"
proof -
  have "robot_inv s"
    using assms(1) robot_inv_reachable by simp
  with assms(2,3) have ts: "tasks s = [(i, t)]" and calm: "\<not> reversing t"
    and was: "target_velocity (intake_motor s) = DESIRED_VELOCITY"
    by (auto simp add: robot_inv_def split: option.splits list.splits if_splits)
  let ?t1 = "t\<lparr>reversing := True, place := ReverseWait\<rparr>"
  let ?s1 = "s\<lparr>intake_motor := (intake_motor s)\<lparr>target_velocity := - 100\<rparr>, tasks := [(i, ?t1)]\<rparr>"
  let ?es1 = "[Lcd_print 0 ''Intake stuck! Reversing...'' [],
               Lcd_print 2 ''Current velocity: %.2f'' [actual_velocity x],
               Move_relative (- REVERSE_DEGREES) REVERSE_SPEED]"
  have stall: "schedule g (Monitor i x) s = (?s1, ?es1)"
    using ts step_stall [OF assms(3,4) calm assms(6,5), of g]
    by (simp add: schedule_def monitor_constants)
  have wait: "fst (robot_run g ws ?s1) = ?s1" "commands (snd (robot_run g ws ?s1)) = []"
    using undisturbed_run [of ?s1 i ?t1 ws g] assms(7) by simp_all
  have same_task: "t\<lparr>reversing := False, place := LoopHead\<rparr> = t"
    using assms(3) calm by simp
  have same_tasks: "s\<lparr>tasks := [(i, t)]\<rparr> = s"
    using ts by simp
  have same_motor: "(intake_motor s)\<lparr>target_velocity := 600\<rparr> = intake_motor s"
    using was by (simp add: DESIRED_VELOCITY_def)
  have resume: "schedule g (Monitor i z) ?s1 = (s, [Move_velocity DESIRED_VELOCITY, Delay 20])"
    using ts step_resume [of ?t1 z g "(intake_motor s)\<lparr>target_velocity := - 100\<rparr>"] assms(8)
    by (simp add: schedule_def same_task same_tasks same_motor monitor_constants)
  obtain esw where w: "robot_run g ws ?s1 = (?s1, esw)" and esw: "commands esw = []"
    using wait by (cases "robot_run g ws ?s1") auto
  have run: "robot_run g (Monitor i x # ws @ [Monitor i z]) s
               = (s, ?es1 @ esw @ [Move_velocity DESIRED_VELOCITY, Delay 20])"
    by (simp add: stall robot_run_append w resume)
  have first: "\<exists>es. snd (robot_run g (Monitor i x # ws @ [Monitor i z]) s)
                     = ?es1 @ es @ [Move_velocity DESIRED_VELOCITY, Delay 20]
                   \<and> commands es = []"
    using esw by (simp only: run snd_conv) blast
  have was_loop: "target_velocity (snd lm) = 200"
    using assms(9,10,11) loop_inv_reachable by simp
  obtain m where lm: "lm = (LoopHead, m)"
    using assms(10) by (cases lm) simp
  let ?m1 = "m\<lparr>target_velocity := - 100\<rparr>"
  let ?el1 = "[Lcd_print 0 ''Intake stuck! Reversing...'' [],
               Move_relative (- reverse_degrees) reverse_speed]"
  have stall_loop: "schedule_loop (Tick x) lm = ((ReverseWait, ?m1), ?el1)"
    using loop_stall [OF assms(6), of m] assms(11)
    by (simp add: schedule_loop_def lm loop_constants)
  obtain m2 esl where wl: "program_loop_run ws' (ReverseWait, ?m1) = ((ReverseWait, m2), esl)"
    and esl: "reversals esl = 0"
    using loop_wait_run [OF assms(12), of ?m1]
    by (cases "program_loop_run ws' (ReverseWait, ?m1)") auto
  have same_m: "m2\<lparr>target_velocity := 200\<rparr> = m"
    using was_loop lm by (cases m; cases m2) simp
  have resume_loop: "schedule_loop (Tick z') (ReverseWait, m2)
                       = (lm, [Move_velocity desired_velocity, Delay 20])"
    using loop_resume [OF assms(13), of m2]
    by (simp add: schedule_loop_def same_m lm loop_constants)
  have run_loop: "program_loop_run (Tick x # ws' @ [Tick z']) lm
               = (lm, ?el1 @ esl @ [Move_velocity desired_velocity, Delay 20])"
    by (simp add: stall_loop program_loop_run_append wl resume_loop)
  have second: "\<exists>es. snd (program_loop_run (Tick x # ws' @ [Tick z']) lm)
                     = ?el1 @ es @ [Move_velocity desired_velocity, Delay 20]
                   \<and> reversals es = 0"
    using esl by (simp only: run_loop snd_conv) blast
  show ?thesis
    using was was_loop first second
    by (simp only: run run_loop fst_conv desired_velocity_def simp_thms)
qed

theorem recovery_resumes_commanded_velocity_witness:
  "monitoring_robot = fst (robot_run 1000 [Opcontrol True False, Monitor 0 (reading 0)] robot_start)
   \<and> map_of (tasks monitoring_robot) 0
       = Some \<lparr>reversing = False, spin_up_grace = False, place = LoopHead\<rparr>
   \<and> target_velocity (intake_motor monitoring_robot) \<noteq> 0
   \<and> \<bar>actual_velocity (reading 10)\<bar> < 50
   \<and> undisturbed_wait 0 (Monitor 0 (reading (- 100)))
   \<and> undisturbed_wait 0 (Opcontrol False False)
   \<and> undisturbed_wait 0 (Monitor 0 (reading (- 30)))
   \<and> \<bar>actual_velocity (reading (3 / 2))\<bar> < 2
   \<and> (LoopHead, \<lparr>target_velocity = 200\<rparr>) = fst (program_loop_run [Operator True] program_loop_start)
   \<and> loop_wait (Tick (reading (- 100))) \<and> loop_wait (Operator True)
   \<and> is_stopped (reading 0)
   \<and> robot_run 1000
        [Monitor 0 (reading 10), Monitor 0 (reading (- 100)), Opcontrol False False,
         Monitor 0 (reading (- 30)), Monitor 0 (reading (3 / 2))]
        monitoring_robot
       = (monitoring_robot,
          [Lcd_print 0 ''Intake stuck! Reversing...'' [],
           Lcd_print 2 ''Current velocity: %.2f'' [10],
           Move_relative (- 90) (- 100), Delay 10, Delay 20, Delay 10,
           Move_velocity 600, Delay 20])
   \<and> program_loop_run [Tick (reading 10), Tick (reading (- 100)), Operator True, Tick (reading 0)]
        (LoopHead, \<lparr>target_velocity = 200\<rparr>)
       = ((LoopHead, \<lparr>target_velocity = 200\<rparr>),
          [Lcd_print 0 ''Intake stuck! Reversing...'' [],
           Move_relative (- 90) (- 100), Delay 10, Move_velocity 200, Delay 20,
           Move_velocity 200, Delay 20])"
proof -
  let ?t = "\<lparr>reversing = False, spin_up_grace = False, place = LoopHead\<rparr>"
  let ?lm = "(LoopHead, \<lparr>target_velocity = 200\<rparr>)"
  let ?ws = "[Monitor 0 (reading (- 100)), Opcontrol False False, Monitor 0 (reading (- 30))]"
  let ?ws' = "[Tick (reading (- 100)), Operator True]"
  have h1: "monitoring_robot = fst (robot_run 1000 [Opcontrol True False, Monitor 0 (reading 0)] robot_start)"
    by (simp add: monitoring_robot_def schedule_def opcontrol_def press_R1_def
        startMonitoringTask_def robot_start_def move_velocity_def
        intake_monitor_task_function_def monitor_start_def DESIRED_VELOCITY_def)
  have h2: "map_of (tasks monitoring_robot) 0 = Some ?t"
    by (simp add: monitoring_robot_def)
  have h3: "place ?t = LoopHead" and h4: "\<not> spin_up_grace ?t"
    by simp_all
  have h5: "target_velocity (intake_motor monitoring_robot) \<noteq> 0"
    by (simp add: monitoring_robot_def)
  have h6: "\<bar>actual_velocity (reading 10)\<bar> < 50"
    by (simp add: reading_def)
  have w1: "undisturbed_wait 0 (Monitor 0 (reading (- 100)))"
    and w2: "undisturbed_wait 0 (Opcontrol False False)"
    and w3: "undisturbed_wait 0 (Monitor 0 (reading (- 30)))"
    by (simp_all add: undisturbed_wait_def reading_def abs_int_def to_int_def)
  have h7: "\<forall>a\<in>set ?ws. undisturbed_wait 0 a"
    using w1 w2 w3 by simp
  have h8: "\<bar>actual_velocity (reading (3 / 2))\<bar> < 2"
    by (simp add: reading_def)
  have h9: "?lm = fst (program_loop_run [Operator True] program_loop_start)"
    by (simp add: schedule_loop_def opcontrol_loop_def program_loop_start_def
        move_velocity_def desired_velocity_def)
  have h10: "fst ?lm = LoopHead" and h11: "target_velocity (snd ?lm) \<noteq> 0"
    by simp_all
  have l1: "loop_wait (Tick (reading (- 100)))" and l2: "loop_wait (Operator True)"
    by (simp_all add: loop_wait_def reading_def)
  have h12: "\<forall>a\<in>set ?ws'. loop_wait a"
    using l1 l2 by simp
  have h13: "is_stopped (reading 0)"
    by (simp add: reading_def)
  note c = recovery_resumes_commanded_velocity
    [OF h1 h2 h3 h4 h5 h6 h7 h8 h9 h10 h11 h12 h13]
  have back1: "fst (robot_run 1000 (Monitor 0 (reading 10) # ?ws @ [Monitor 0 (reading (3 / 2))])
                 monitoring_robot) = monitoring_robot"
    using c by blast
  have back2: "fst (program_loop_run (Tick (reading 10) # ?ws' @ [Tick (reading 0)]) ?lm) = ?lm"
    using c by blast
  have ev1: "snd (robot_run 1000 (Monitor 0 (reading 10) # ?ws @ [Monitor 0 (reading (3 / 2))])
                 monitoring_robot)
             = [Lcd_print 0 ''Intake stuck! Reversing...'' [],
                Lcd_print 2 ''Current velocity: %.2f'' [10],
                Move_relative (- 90) (- 100), Delay 10, Delay 20, Delay 10,
                Move_velocity 600, Delay 20]"
    by (simp add: monitoring_robot_def schedule_def opcontrol_def move_velocity_def
        move_relative_def intake_monitor_task_function_def reading_def monitor_constants
        abs_int_def to_int_def)
  have ev2: "snd (program_loop_run (Tick (reading 10) # ?ws' @ [Tick (reading 0)]) ?lm)
             = [Lcd_print 0 ''Intake stuck! Reversing...'' [],
                Move_relative (- 90) (- 100), Delay 10, Move_velocity 200, Delay 20,
                Move_velocity 200, Delay 20]"
    by (simp add: schedule_loop_def opcontrol_loop_def move_velocity_def move_relative_def
        intake_monitor_task_loop_def reading_def loop_constants abs_int_def to_int_def)
  have r1: "robot_run 1000 (Monitor 0 (reading 10) # ?ws @ [Monitor 0 (reading (3 / 2))])
              monitoring_robot
            = (monitoring_robot,
               [Lcd_print 0 ''Intake stuck! Reversing...'' [],
                Lcd_print 2 ''Current velocity: %.2f'' [10],
                Move_relative (- 90) (- 100), Delay 10, Delay 20, Delay 10,
                Move_velocity 600, Delay 20])"
    using back1 ev1 by (simp only: prod_eq_iff fst_conv snd_conv simp_thms)
  have r2: "program_loop_run (Tick (reading 10) # ?ws' @ [Tick (reading 0)]) ?lm
            = (?lm,
               [Lcd_print 0 ''Intake stuck! Reversing...'' [],
                Move_relative (- 90) (- 100), Delay 10, Move_velocity 200, Delay 20,
                Move_velocity 200, Delay 20])"
    using back2 ev2 by (simp only: prod_eq_iff fst_conv snd_conv simp_thms)
  show ?thesis
    using h1 h2 h5 h6 w1 w2 w3 h8 h9 l1 l2 h13 r1 r2
    by (simp only: append.simps simp_thms)
qed

subsection \<open>One monitor task\<close>

text \<open>
  C6. At most one monitor task is in the scheduler at any time. The property
  \<open>one_monitor\<close> holds at the start and is kept by \<^verbatim>\<open>startMonitoringTask\<close>,
  \<^verbatim>\<open>stopMonitoringTask\<close> and every step of the program; where it holds, starting is a
  no-op when a monitor is running, stopping leaves no task behind, and a start right
  after a stop gives exactly one task, a new one.
\<close>

theorem at_most_one_monitor_task:
  assumes "one_monitor s"
  shows "one_monitor robot_start
         \<and> one_monitor (startMonitoringTask s)
         \<and> one_monitor (stopMonitoringTask s)
         \<and> one_monitor (fst (schedule g a s))
         \<and> one_monitor (fst (robot_run g as s))
         \<and> one_monitor (fst (robot_run g as robot_start))
         \<and> length (tasks (fst (robot_run g as robot_start))) \<le> 1
         \<and> length (tasks s) \<le> 1
         \<and> (intake_monitor_task s \<noteq> None \<longrightarrow> startMonitoringTask s = s)
         \<and> tasks (stopMonitoringTask s) = []
         \<and> tasks (startMonitoringTask (stopMonitoringTask s)) = [(created s, monitor_start)]
         \<and> intake_monitor_task (startMonitoringTask (stopMonitoringTask s)) = Some (created s)"
proof -
  have a: "one_monitor robot_start"
    by (simp add: one_monitor_def robot_start_def)
  have b: "one_monitor (startMonitoringTask s)"
    using assms by (auto simp add: one_monitor_def startMonitoringTask_def split: option.splits)
  have c: "one_monitor (stopMonitoringTask s)"
    using assms by (auto simp add: one_monitor_def stopMonitoringTask_def split: option.splits)
  have d: "length (tasks s) \<le> 1"
  proof -
    have "length (map fst (tasks s)) \<le> 1"
      using assms by (simp add: one_monitor_def split: option.splits)
    then show ?thesis by simp
  qed
  have e: "tasks (stopMonitoringTask s) = []"
    using assms by (simp add: one_monitor_stop)
  have f: "tasks (startMonitoringTask (stopMonitoringTask s)) = [(created s, monitor_start)]
           \<and> intake_monitor_task (startMonitoringTask (stopMonitoringTask s)) = Some (created s)"
    using assms
    by (auto simp add: one_monitor_def stopMonitoringTask_def startMonitoringTask_def
        split: option.splits)
  have g: "one_monitor (fst (robot_run g as robot_start))"
    using a by (rule one_monitor_run)
  have h: "length (tasks (fst (robot_run g as robot_start))) \<le> 1"
  proof -
    have "length (map fst (tasks (fst (robot_run g as robot_start)))) \<le> 1"
      using g by (simp add: one_monitor_def split: option.splits)
    then show ?thesis by simp
  qed
  show ?thesis
    using a b c d e f g h one_monitor_schedule [OF assms] one_monitor_run [OF assms]
    by (simp add: startMonitoringTask_def)
qed

theorem at_most_one_monitor_task_witness:
  "one_monitor recovering_robot
   \<and> one_monitor (fst (robot_run 1000 [Opcontrol True False, Opcontrol True False] recovering_robot))
   \<and> tasks (fst (robot_run 1000 [Opcontrol True False, Opcontrol True False] recovering_robot))
       = [(1, monitor_start)]
   \<and> startMonitoringTask recovering_robot = recovering_robot
   \<and> tasks (startMonitoringTask (stopMonitoringTask recovering_robot)) = [(1, monitor_start)]"
proof -
  have h: "one_monitor recovering_robot"
    by (simp add: one_monitor_def recovering_robot_eq)
  have t: "tasks (fst (robot_run 1000 [Opcontrol True False, Opcontrol True False] recovering_robot))
             = [(1, monitor_start)]"
    by (simp add: recovering_robot_eq schedule_def opcontrol_def press_R1_def
        startMonitoringTask_def stopMonitoringTask_def move_velocity_def)
  have c: "created recovering_robot = 1" "intake_monitor_task recovering_robot \<noteq> None"
    by (simp_all add: recovering_robot_eq)
  show ?thesis
    using h t c
      at_most_one_monitor_task [OF h, of 1000 "Opcontrol True False"
        "[Opcontrol True False, Opcontrol True False]"]
    by simp
qed

subsection \<open>The colour classifier\<close>

text \<open>
  C7. The colour classifier is a function of the hue alone with fixed disjoint bands:
  hues 0, 15 and 345 are red, 240 is blue, 90 is unknown; the boundary hues 330 and 30
  are red, 210 and 270 are blue; the two bands never overlap and every hue outside both
  is unknown.
\<close>

theorem detectColor_bands:
  "detectColor 0 = RED \<and> detectColor 15 = RED \<and> detectColor 345 = RED
   \<and> detectColor 240 = BLUE \<and> detectColor 90 = UNKNOWN
   \<and> detectColor 330 = RED \<and> detectColor 30 = RED
   \<and> detectColor 210 = BLUE \<and> detectColor 270 = BLUE
   \<and> (\<forall>hue::int. \<not> ((hue \<ge> 330 \<or> hue \<le> 30) \<and> (hue \<ge> 210 \<and> hue \<le> 270)))
   \<and> (\<forall>hue. (detectColor hue = RED) = (hue \<ge> 330 \<or> hue \<le> 30))
   \<and> (\<forall>hue. (detectColor hue = BLUE) = (210 \<le> hue \<and> hue \<le> 270))
   \<and> (\<forall>hue. \<not> (hue \<ge> 330 \<or> hue \<le> 30) \<and> \<not> (210 \<le> hue \<and> hue \<le> 270)
        \<longrightarrow> detectColor hue = UNKNOWN)"
  by (auto simp add: detectColor_def)

theorem detectColor_bands_witness:
  "\<not> ((100::int) \<ge> 330 \<or> (100::int) \<le> 30) \<and> \<not> (210 \<le> (100::int) \<and> (100::int) \<le> 270)
   \<and> detectColor 100 = UNKNOWN"
  using detectColor_bands by simp

subsection \<open>The eject window\<close>

text \<open>
  C8. When the detected colour is neither the alliance colour nor unknown, the sorter
  sleeps for the travel delay with the motor as it was, commands velocity 0, sleeps for
  the stop delay and commands \<open>INTAKE_SPEED\<close>: the target velocity is unchanged before
  \<open>TRAVEL_DELAY\<close>, 0 from then until \<open>TRAVEL_DELAY + STOP_DELAY\<close>, and \<open>INTAKE_SPEED\<close>
  afterwards.
\<close>

theorem eject_stops_then_resumes:
  assumes "detectColor hue \<noteq> ALLIANCE_COLOR" and "detectColor hue \<noteq> UNKNOWN"
  shows "snd (colorSortTask ALLIANCE_COLOR hue intake)
           = [Delay TRAVEL_DELAY, Move_velocity 0, Set_text 2 0 ''Color Mismatch!'',
              Delay STOP_DELAY, Move_velocity INTAKE_SPEED, Delay 50]
         \<and> target_velocity (fst (colorSortTask ALLIANCE_COLOR hue intake)) = INTAKE_SPEED
         \<and> (\<forall>t. velocity_at (target_velocity intake) (snd (colorSortTask ALLIANCE_COLOR hue intake)) t
                = (if t < TRAVEL_DELAY then target_velocity intake
                   else if t < TRAVEL_DELAY + STOP_DELAY then 0
                   else INTAKE_SPEED))"
  using assms
  by (auto simp add: colorSortTask_def Let_def move_velocity_def)

theorem eject_stops_then_resumes_witness:
  "detectColor 240 \<noteq> RED \<and> detectColor 240 \<noteq> UNKNOWN
   \<and> snd (colorSortTask RED 240 \<lparr>target_velocity = 600\<rparr>)
       = [Delay 100, Move_velocity 0, Set_text 2 0 ''Color Mismatch!'',
          Delay 200, Move_velocity 100, Delay 50]
   \<and> target_velocity (fst (colorSortTask RED 240 \<lparr>target_velocity = 600\<rparr>)) = 100
   \<and> velocity_at 600 (snd (colorSortTask RED 240 \<lparr>target_velocity = 600\<rparr>)) 99 = 600
   \<and> velocity_at 600 (snd (colorSortTask RED 240 \<lparr>target_velocity = 600\<rparr>)) 100 = 0
   \<and> velocity_at 600 (snd (colorSortTask RED 240 \<lparr>target_velocity = 600\<rparr>)) 299 = 0
   \<and> velocity_at 600 (snd (colorSortTask RED 240 \<lparr>target_velocity = 600\<rparr>)) 300 = 100"
proof -
  have h1: "detectColor 240 \<noteq> RED" and h2: "detectColor 240 \<noteq> UNKNOWN"
    by (simp_all add: detectColor_def)
  show ?thesis
    using h1 h2 eject_stops_then_resumes [OF h1 h2, of "\<lparr>target_velocity = 600\<rparr>"]
    by (simp add: TRAVEL_DELAY_def STOP_DELAY_def INTAKE_SPEED_def)
qed

subsection \<open>Unknown colour\<close>

text \<open>
  C9. An iteration in which the detected colour is unknown commands nothing: the motor
  is as it was and the target velocity does not change during the iteration, whatever
  the alliance colour is. (The stall monitor never reads the colour.)
\<close>

theorem unknown_colour_leaves_motor_alone:
  assumes "detectColor hue = UNKNOWN"
  shows "fst (colorSortTask ALLIANCE_COLOR hue intake) = intake
         \<and> commands (snd (colorSortTask ALLIANCE_COLOR hue intake)) = []
         \<and> (\<forall>t. velocity_at (target_velocity intake) (snd (colorSortTask ALLIANCE_COLOR hue intake)) t
                = target_velocity intake)"
  using assms
  by (simp add: colorSortTask_def Let_def commands_def)

theorem unknown_colour_leaves_motor_alone_witness:
  "detectColor 90 = UNKNOWN
   \<and> colorSortTask RED 90 \<lparr>target_velocity = 600\<rparr>
       = (\<lparr>target_velocity = 600\<rparr>, [Set_text 2 0 ''No Ring!'', Delay 50])
   \<and> commands (snd (colorSortTask RED 90 \<lparr>target_velocity = 600\<rparr>)) = []"
proof -
  have h: "detectColor 90 = UNKNOWN"
    by (simp add: detectColor_def)
  show ?thesis
    using h unknown_colour_leaves_motor_alone [OF h, of RED "\<lparr>target_velocity = 600\<rparr>"]
    by (simp add: colorSortTask_def)
qed

subsection \<open>The threshold\<close>

text \<open>
  C10. The comparison with the threshold is strict. After the grace period and with a
  target velocity other than 0, a reading whose absolute value is exactly the threshold
  of 50 is running and nothing is commanded; a reading is a stall exactly when its
  absolute value is below 50. Both monitors.
\<close>

theorem stall_comparison_is_strict:
  assumes "place t = LoopHead" and "\<not> spin_up_grace t" and "target_velocity m \<noteq> 0"
  shows "(\<bar>actual_velocity x\<bar> = real_of_int VELOCITY_THRESHOLD \<longrightarrow>
            intake_monitor_task_function g x (t, m) = ((t, m), [Delay 20])
            \<and> classify (place t) (snd (intake_monitor_task_function g x (t, m))) = Running)
         \<and> (\<not> reversing t \<longrightarrow>
              (classify (place t) (snd (intake_monitor_task_function g x (t, m))) = Stalled)
                = (\<bar>actual_velocity x\<bar> < 50))
         \<and> (\<bar>actual_velocity x\<bar> = real_of_int velocity_threshold \<longrightarrow>
              intake_monitor_task_loop x (LoopHead, m) = ((LoopHead, m), [Delay 20]))
         \<and> (reversals (snd (intake_monitor_task_loop x (LoopHead, m))) > 0)
             = (\<bar>actual_velocity x\<bar> < 50)"
  using assms
  by (simp add: intake_monitor_task_function_def intake_monitor_task_loop_def Let_def
        classify_def reversals_simps monitor_constants loop_constants abs_int_less)

theorem stall_comparison_is_strict_witness:
  "place \<lparr>reversing = False, spin_up_grace = False, place = LoopHead\<rparr> = LoopHead
   \<and> \<not> spin_up_grace \<lparr>reversing = False, spin_up_grace = False, place = LoopHead\<rparr>
   \<and> target_velocity \<lparr>target_velocity = 600\<rparr> \<noteq> 0
   \<and> \<bar>actual_velocity (reading (- 50))\<bar> = real_of_int VELOCITY_THRESHOLD
   \<and> intake_monitor_task_function 1000 (reading (- 50))
        (\<lparr>reversing = False, spin_up_grace = False, place = LoopHead\<rparr>, \<lparr>target_velocity = 600\<rparr>)
       = ((\<lparr>reversing = False, spin_up_grace = False, place = LoopHead\<rparr>, \<lparr>target_velocity = 600\<rparr>),
          [Delay 20])
   \<and> intake_monitor_task_loop (reading (- 50)) (LoopHead, \<lparr>target_velocity = 600\<rparr>)
       = ((LoopHead, \<lparr>target_velocity = 600\<rparr>), [Delay 20])"
  using stall_comparison_is_strict
    [of "\<lparr>reversing = False, spin_up_grace = False, place = LoopHead\<rparr>"
        "\<lparr>target_velocity = 600\<rparr>" "reading (- 50)" 1000]
  by (simp add: reading_def VELOCITY_THRESHOLD_def velocity_threshold_def)

end
